theory Spec2Isabelle
  imports Complex_Main "HOL-Library.Word"
begin

section \<open>Signal pipeline of \<open>src/app/page.tsx\<close>\<close>

text \<open>
  The three engines of \<open>src/app/page.tsx\<close> (\<open>NLPEngine\<close>, \<open>SignalGenerator\<close>,
  \<open>BacktestEngine\<close>) are embedded function by function.

  Conventions of the embedding.
  \<^item> A finite JavaScript \<open>number\<close> is a \<open>real\<close>, and arithmetic on finite numbers is
    exact. The doubles of the source can differ from it in the last place, which shows
    only where a result sits on a rounding tie or on a threshold; the concrete inputs
    of the theorems below are inputs at which the doubles give the same values.
  \<^item> Where the source can produce a value that is not a finite number, the value is
    a \<open>jsnum\<close>: a finite number, one of the two infinities, or NaN. That is so for
    every division whose divisor may be 0, and for everything computed from a score
    of \<open>SignalGenerator\<close>. A field that only ever holds a finite number stays a
    \<open>real\<close>. The two zeros of a double are not told apart.
  \<^item> Counts and lengths are \<open>nat\<close>.
  \<^item> \<open>Math.round\<close> rounds to the nearest integer with ties towards plus infinity:
    \<open>js_round x = \<lfloor>x + 1/2\<rfloor>\<close>.
  \<^item> A JavaScript string is a \<open>string\<close> whose characters are read as the code units
    U+0000 .. U+00FF.
  \<^item> Each call of \<open>Math.random()\<close> is a parameter of the function that makes it.
  \<^item> A nested object type gets a record of its own; where two records of the source
    share a field name the nested one carries a prefix (\<open>s_confidence\<close>,
    \<open>c_sentiment\<close>, \<open>etype\<close> for the field \<open>type\<close>).
\<close>

subsection \<open>Numbers\<close>

definition js_round :: "real \<Rightarrow> real" where
  "js_round x = of_int \<lfloor>x + 1 / 2\<rfloor>"

text \<open>\<open>n || 1\<close> on a length: the length, or 1 when it is 0.\<close>

definition or1 :: "nat \<Rightarrow> real" where
  "or1 n = (if n = 0 then 1 else real n)"

text \<open>
  The values of a JavaScript number, and the arithmetic of the source on them:
  \<open>+\<close>, \<open>-\<close>, \<open>*\<close>, \<open>/\<close> and \<open>Math.abs\<close> as IEEE 754 defines them on infinities and
  NaN. A finite number divided by 0 is an infinity, \<open>0 / 0\<close> is NaN, and NaN spreads
  through every operation. (\<open>inverse\<close> is not used by the source; the type class of
  \<open>/\<close> asks for it.)
\<close>

datatype jsnum = Num real | PInf | NInf | NaN

instantiation jsnum :: "{plus, minus, times, inverse, abs}"
begin

fun plus_jsnum :: "jsnum \<Rightarrow> jsnum \<Rightarrow> jsnum" where
  "plus_jsnum (Num a) (Num b) = Num (a + b)"
| "plus_jsnum NaN y = NaN"
| "plus_jsnum x NaN = NaN"
| "plus_jsnum PInf NInf = NaN"
| "plus_jsnum NInf PInf = NaN"
| "plus_jsnum PInf y = PInf"
| "plus_jsnum x PInf = PInf"
| "plus_jsnum NInf y = NInf"
| "plus_jsnum x NInf = NInf"

fun minus_jsnum :: "jsnum \<Rightarrow> jsnum \<Rightarrow> jsnum" where
  "minus_jsnum (Num a) (Num b) = Num (a - b)"
| "minus_jsnum NaN y = NaN"
| "minus_jsnum x NaN = NaN"
| "minus_jsnum PInf PInf = NaN"
| "minus_jsnum NInf NInf = NaN"
| "minus_jsnum PInf y = PInf"
| "minus_jsnum x PInf = NInf"
| "minus_jsnum NInf y = NInf"
| "minus_jsnum x NInf = PInf"

fun times_jsnum :: "jsnum \<Rightarrow> jsnum \<Rightarrow> jsnum" where
  "times_jsnum (Num a) (Num b) = Num (a * b)"
| "times_jsnum NaN y = NaN"
| "times_jsnum x NaN = NaN"
| "times_jsnum PInf (Num b) = (if b = 0 then NaN else if 0 < b then PInf else NInf)"
| "times_jsnum NInf (Num b) = (if b = 0 then NaN else if 0 < b then NInf else PInf)"
| "times_jsnum (Num a) PInf = (if a = 0 then NaN else if 0 < a then PInf else NInf)"
| "times_jsnum (Num a) NInf = (if a = 0 then NaN else if 0 < a then NInf else PInf)"
| "times_jsnum PInf PInf = PInf"
| "times_jsnum PInf NInf = NInf"
| "times_jsnum NInf PInf = NInf"
| "times_jsnum NInf NInf = PInf"

fun divide_jsnum :: "jsnum \<Rightarrow> jsnum \<Rightarrow> jsnum" where
  "divide_jsnum (Num a) (Num b) =
     (if b \<noteq> 0 then Num (a / b) else if a = 0 then NaN else if 0 < a then PInf else NInf)"
| "divide_jsnum NaN y = NaN"
| "divide_jsnum x NaN = NaN"
| "divide_jsnum (Num a) y = Num 0"
| "divide_jsnum PInf (Num b) = (if 0 \<le> b then PInf else NInf)"
| "divide_jsnum NInf (Num b) = (if 0 \<le> b then NInf else PInf)"
| "divide_jsnum x y = NaN"

fun inverse_jsnum :: "jsnum \<Rightarrow> jsnum" where
  "inverse_jsnum (Num a) = (if a \<noteq> 0 then Num (1 / a) else PInf)"
| "inverse_jsnum NaN = NaN"
| "inverse_jsnum x = Num 0"

fun abs_jsnum :: "jsnum \<Rightarrow> jsnum" where
  "abs_jsnum (Num a) = Num \<bar>a\<bar>"
| "abs_jsnum NaN = NaN"
| "abs_jsnum x = PInf"

instance ..

end

text \<open>\<open>Math.sqrt\<close> and \<open>Math.round\<close> on these values.\<close>

fun js_sqrt :: "jsnum \<Rightarrow> jsnum" where
  "js_sqrt (Num a) = (if a < 0 then NaN else Num (sqrt a))"
| "js_sqrt PInf = PInf"
| "js_sqrt x = NaN"

fun round_num :: "jsnum \<Rightarrow> jsnum" where
  "round_num (Num a) = Num (js_round a)"
| "round_num x = x"

text \<open>
  The comparisons \<open>x >= y\<close>, \<open>x > y\<close> and \<open>x < y\<close>: each is false as soon as one side
  is NaN.
\<close>

fun js_lt :: "jsnum \<Rightarrow> jsnum \<Rightarrow> bool" where
  "js_lt (Num a) (Num b) = (a < b)"
| "js_lt NaN y = False"
| "js_lt x NaN = False"
| "js_lt x NInf = False"
| "js_lt PInf y = False"
| "js_lt x y = True"

definition js_gt :: "jsnum \<Rightarrow> jsnum \<Rightarrow> bool" where
  "js_gt x y = js_lt y x"

fun js_ge :: "jsnum \<Rightarrow> jsnum \<Rightarrow> bool" where
  "js_ge (Num a) (Num b) = (a \<ge> b)"
| "js_ge NaN y = False"
| "js_ge x NaN = False"
| "js_ge PInf y = True"
| "js_ge x NInf = True"
| "js_ge x y = False"

text \<open>\<open>x || y\<close> on numbers: \<open>y\<close> when \<open>x\<close> is 0 or NaN, the two numbers that count as false.\<close>

definition js_or :: "jsnum \<Rightarrow> jsnum \<Rightarrow> jsnum" where
  "js_or x y = (if x = Num 0 \<or> x = NaN then y else x)"

text \<open>A value that is a finite number.\<close>

fun isNum :: "jsnum \<Rightarrow> bool" where
  "isNum (Num a) = True"
| "isNum x = False"

subsection \<open>Data\<close>

record Sentiment =
  positive :: real
  negative :: real
  neutral :: real
  s_confidence :: real

record Entity =
  name :: string
  etype :: string
  count :: nat

record NLPResult =
  tokens :: "string list"
  embeddings :: "jsnum list"
  sentiment :: Sentiment
  entities :: "Entity list"
  keyPhrases :: "string list"

datatype decision = BUY | HOLD | SELL

record Components =
  c_sentiment :: real
  c_fundamental :: jsnum
  c_technical :: jsnum

record Signal =
  ticker :: string
  signal :: decision
  confidence :: jsnum
  components :: Components
  reasoning :: "string list"

record Config =
  bufferDays :: real
  initialCapital :: real

record BacktestResult =
  sharpeRatio :: jsnum
  maxDrawdown :: real
  winRate :: jsnum
  alpha :: jsnum
  trades :: int
  returns :: jsnum

subsection \<open>NLPEngine: the word lists\<close>

definition positiveWords :: "string list" where
  "positiveWords =
    [''achieve'', ''accomplishment'', ''advantage'', ''benefit'', ''breakthrough'', ''confident'',
     ''deliver'', ''enhance'', ''exceed'', ''excellent'', ''favorable'', ''gain'', ''growth'',
     ''improve'', ''innovation'', ''opportunity'', ''outperform'', ''positive'', ''profit'',
     ''progress'', ''recovery'', ''strength'', ''success'', ''superior'', ''upside'', ''value'']"

definition negativeWords :: "string list" where
  "negativeWords =
    [''adverse'', ''challenge'', ''concern'', ''decline'', ''default'', ''deficit'', ''delay'',
     ''deteriorate'', ''difficult'', ''disappoint'', ''downgrade'', ''failure'', ''impair'',
     ''inability'', ''lawsuit'', ''liability'', ''litigation'', ''loss'', ''negative'',
     ''problem'', ''restructure'', ''risk'', ''shortfall'', ''threat'', ''uncertain'', ''weak'']"

definition uncertaintyWords :: "string list" where
  "uncertaintyWords =
    [''anticipate'', ''approximate'', ''assume'', ''believe'', ''could'', ''depend'', ''estimate'',
     ''expect'', ''forecast'', ''hope'', ''intend'', ''likely'', ''may'', ''might'', ''outlook'',
     ''plan'', ''possible'', ''potential'', ''predict'', ''probable'', ''project'', ''should'']"

text \<open>\<open>Set.prototype.has\<close> on one of the word lists.\<close>

definition has :: "string list \<Rightarrow> string \<Rightarrow> bool" where
  "has ws w = (w \<in> set ws)"

subsection \<open>NLPEngine.stemWord\<close>

definition endsWith :: "string \<Rightarrow> string \<Rightarrow> bool" where
  "endsWith w s = (length s \<le> length w \<and> drop (length w - length s) w = s)"

definition suffixes :: "string list" where
  "suffixes = [''ing'', ''ed'', ''ly'', ''ness'', ''ment'', ''tion'', ''sion'', ''ity'']"

text \<open>The \<open>for\<close> loop over the suffixes: the first suffix that passes both tests is cut off.\<close>

fun stemLoop :: "string list \<Rightarrow> string \<Rightarrow> string" where
  "stemLoop [] w = w"
| "stemLoop (s # ss) w =
     (if endsWith w s \<and> length w > length s + 3 then take (length w - length s) w
      else stemLoop ss w)"

definition stemWord :: "string \<Rightarrow> string" where
  "stemWord w = stemLoop suffixes w"

subsection \<open>NLPEngine.computeSentiment\<close>

text \<open>
  The body of \<open>tokens.forEach\<close>: the three counters \<open>(positive, negative, uncertainty)\<close>
  after one more token. The three tests are independent \<open>if\<close>s, not an \<open>else if\<close> chain.
\<close>

definition countToken :: "nat \<times> nat \<times> nat \<Rightarrow> string \<Rightarrow> nat \<times> nat \<times> nat" where
  "countToken acc token =
     (case acc of (p, n, u) \<Rightarrow>
        let stemmed = stemWord token in
        ((if has positiveWords token \<or> has positiveWords stemmed then p + 1 else p),
         (if has negativeWords token \<or> has negativeWords stemmed then n + 1 else n),
         (if has uncertaintyWords token \<or> has uncertaintyWords stemmed then u + 1 else u)))"

definition countTokens :: "string list \<Rightarrow> nat \<times> nat \<times> nat" where
  "countTokens toks = foldl countToken (0, 0, 0) toks"

definition positiveScore :: "string list \<Rightarrow> real" where
  "positiveScore toks = (real (fst (countTokens toks)) / or1 (length toks)) * 100"

definition negativeScore :: "string list \<Rightarrow> real" where
  "negativeScore toks = (real (fst (snd (countTokens toks))) / or1 (length toks)) * 100"

definition neutralScore :: "string list \<Rightarrow> real" where
  "neutralScore toks = 100 - positiveScore toks - negativeScore toks"

definition rawConfidence :: "string list \<Rightarrow> real" where
  "rawConfidence toks =
     \<bar>positiveScore toks - negativeScore toks\<bar>
       + (100 - real (snd (snd (countTokens toks))) * 10)"

definition computeSentiment :: "string list \<Rightarrow> Sentiment" where
  "computeSentiment toks =
     \<lparr> positive = js_round (positiveScore toks * 100) / 100,
       negative = js_round (negativeScore toks * 100) / 100,
       neutral = js_round (neutralScore toks * 100) / 100,
       s_confidence = min 100 (max 0 (js_round (rawConfidence toks))) \<rparr>"

subsection \<open>NLPEngine.tokenize\<close>

definition code :: "char \<Rightarrow> nat" where
  "code c = of_char c"

text \<open>
  \<open>toLowerCase\<close> on the code units below 256: the ASCII capitals and the Latin-1 capitals
  (all of U+00C0 .. U+00DE but the multiplication sign) move up by 32.
\<close>

definition toLowerChar :: "char \<Rightarrow> char" where
  "toLowerChar c =
     (if (65 \<le> code c \<and> code c \<le> 90) \<or> (192 \<le> code c \<and> code c \<le> 222 \<and> code c \<noteq> 215)
      then char_of (code c + 32) else c)"

definition toLowerCase :: "string \<Rightarrow> string" where
  "toLowerCase s = map toLowerChar s"

text \<open>The classes \<open>\d\<close>, \<open>\w\<close> and \<open>\s\<close> of a regular expression without the \<open>u\<close> flag.\<close>

definition isDigit :: "char \<Rightarrow> bool" where
  "isDigit c = (48 \<le> code c \<and> code c \<le> 57)"

definition isWordChar :: "char \<Rightarrow> bool" where
  "isWordChar c =
     (isDigit c \<or> (65 \<le> code c \<and> code c \<le> 90) \<or> code c = 95 \<or> (97 \<le> code c \<and> code c \<le> 122))"

definition isSpaceChar :: "char \<Rightarrow> bool" where
  "isSpaceChar c = ((9 \<le> code c \<and> code c \<le> 13) \<or> code c = 32 \<or> code c = 160)"

text \<open>\<open>.replace(/[^\w\s]/g, " ")\<close>\<close>

definition replacePunct :: "string \<Rightarrow> string" where
  "replacePunct s = map (\<lambda>c. if isWordChar c \<or> isSpaceChar c then c else CHR '' '') s"

text \<open>
  \<open>.split(/\s+/)\<close>: the pieces between maximal runs of white space. The flag says that
  the character before was white space, so that a run separates once. As in
  JavaScript a leading or trailing run leaves an empty piece, and the empty string
  splits into one empty piece.
\<close>

fun splitWs :: "bool \<Rightarrow> string \<Rightarrow> string list" where
  "splitWs prev [] = [[]]"
| "splitWs prev (c # cs) =
     (if isSpaceChar c then (if prev then splitWs True cs else [] # splitWs True cs)
      else (case splitWs False cs of [] \<Rightarrow> [[c]] | t # ts \<Rightarrow> (c # t) # ts))"

definition tokenize :: "string \<Rightarrow> string list" where
  "tokenize text = filter (\<lambda>token. length token > 2) (splitWs False (replacePunct (toLowerCase text)))"

subsection \<open>NLPEngine.extractEntities\<close>

text \<open>
  The five patterns use literals, character classes, sequence, alternation, optional
  groups, and repetition of a character class only. \<open>re\<close> is that fragment, and
  \<open>matchRe\<close> is the backtracking matcher on it: alternatives in order, repetition
  greedy, the continuation \<open>k\<close> deciding whether the rest of the pattern matches.
  \<open>Rep lo hi p\<close> is \<open>p{lo,hi}\<close>, with \<open>hi = None\<close> for no upper bound.
\<close>

datatype re = Atom "char \<Rightarrow> bool" | Eps | Seq re re | Alt re re | Rep nat "nat option" "char \<Rightarrow> bool"

fun repTry :: "nat \<Rightarrow> nat \<Rightarrow> (string \<Rightarrow> string option) \<Rightarrow> string \<Rightarrow> string option" where
  "repTry lo 0 k s = (if lo = 0 then k s else None)"
| "repTry lo (Suc n) k s =
     (if Suc n < lo then None
      else (case k (drop (Suc n) s) of Some r \<Rightarrow> Some r | None \<Rightarrow> repTry lo n k s))"

fun matchRe :: "re \<Rightarrow> (string \<Rightarrow> string option) \<Rightarrow> string \<Rightarrow> string option" where
  "matchRe (Atom p) k s = (case s of [] \<Rightarrow> None | c # cs \<Rightarrow> if p c then k cs else None)"
| "matchRe Eps k s = k s"
| "matchRe (Seq a b) k s = matchRe a (matchRe b k) s"
| "matchRe (Alt a b) k s = (case matchRe a k s of Some r \<Rightarrow> Some r | None \<Rightarrow> matchRe b k s)"
| "matchRe (Rep lo hi p) k s =
     (let avail = length (takeWhile p s);
          n = (case hi of None \<Rightarrow> avail | Some h \<Rightarrow> min h avail)
      in repTry lo n k s)"

text \<open>The length of the match that starts at the head of \<open>s\<close>, if there is one.\<close>

definition matchAt :: "re \<Rightarrow> string \<Rightarrow> nat option" where
  "matchAt r s = (case matchRe r Some s of None \<Rightarrow> None | Some rest \<Rightarrow> Some (length s - length rest))"

text \<open>
  \<open>text.match(regex)\<close> with the \<open>g\<close> flag: the successive matches from left to right,
  each search starting where the match before ended. \<open>skip\<close> counts the characters
  still covered by the last match. No match gives \<open>null\<close>, which \<open>|| []\<close> turns into
  the empty list. (None of the five patterns matches the empty string, so the match
  JavaScript would try at the very end of the input is left out.)
\<close>

fun scan :: "re \<Rightarrow> nat \<Rightarrow> string \<Rightarrow> string list" where
  "scan r skip [] = []"
| "scan r skip (c # cs) =
     (if skip > 0 then scan r (skip - 1) cs
      else (case matchAt r (c # cs) of
              None \<Rightarrow> scan r 0 cs
            | Some l \<Rightarrow> take l (c # cs) # scan r (l - 1) cs))"

definition Lit :: "char \<Rightarrow> re" where
  "Lit c = Atom (\<lambda>x. x = c)"

text \<open>A letter under the \<open>i\<close> flag: both characters are compared in upper case.\<close>

definition toUpperChar :: "char \<Rightarrow> char" where
  "toUpperChar c = (if 97 \<le> code c \<and> code c \<le> 122 then char_of (code c - 32) else c)"

definition LitI :: "char \<Rightarrow> re" where
  "LitI c = Atom (\<lambda>x. toUpperChar x = toUpperChar c)"

definition StrI :: "string \<Rightarrow> re" where
  "StrI s = foldr (\<lambda>c r. Seq (LitI c) r) s Eps"

definition Opt :: "re \<Rightarrow> re" where
  "Opt r = Alt r Eps"

text \<open>\<open>/\$[\d,]+(?:\.\d+)?(?:\s*(?:million|billion|M|B))?/gi\<close>\<close>

definition moneyRe :: re where
  "moneyRe =
     Seq (Lit CHR ''$'')
      (Seq (Rep 1 None (\<lambda>c. isDigit c \<or> c = CHR '',''))
        (Seq (Opt (Seq (Lit CHR ''.'') (Rep 1 None isDigit)))
          (Opt (Seq (Rep 0 None isSpaceChar)
                 (Alt (StrI ''million'') (Alt (StrI ''billion'') (Alt (LitI CHR ''M'') (LitI CHR ''B''))))))))"

text \<open>\<open>/(?:Q[1-4]|FY)\s*\d{4}/gi\<close>\<close>

definition fiscalRe :: re where
  "fiscalRe =
     Seq (Alt (Seq (LitI CHR ''Q'') (Atom (\<lambda>c. 49 \<le> code c \<and> code c \<le> 52))) (StrI ''FY''))
      (Seq (Rep 0 None isSpaceChar) (Rep 4 (Some 4) isDigit))"

text \<open>\<open>/\d{1,2}(?:\/|-)(?:\d{1,2})(?:\/|-)(?:\d{2,4})/g\<close>\<close>

definition dateRe :: re where
  "dateRe =
     Seq (Rep 1 (Some 2) isDigit)
      (Seq (Alt (Lit CHR ''/'') (Lit CHR ''-''))
        (Seq (Rep 1 (Some 2) isDigit)
          (Seq (Alt (Lit CHR ''/'') (Lit CHR ''-'')) (Rep 2 (Some 4) isDigit))))"

text \<open>\<open>/(?:\d+(?:\.\d+)?)\s*%/g\<close>\<close>

definition percentRe :: re where
  "percentRe =
     Seq (Seq (Rep 1 None isDigit) (Opt (Seq (Lit CHR ''.'') (Rep 1 None isDigit))))
      (Seq (Rep 0 None isSpaceChar) (Lit CHR ''%''))"

text \<open>\<open>/(?:CEO|CFO|CTO|COO|President|Chairman|Director)/gi\<close>\<close>

definition roleRe :: re where
  "roleRe =
     Alt (StrI ''CEO'') (Alt (StrI ''CFO'') (Alt (StrI ''CTO'') (Alt (StrI ''COO'')
      (Alt (StrI ''President'') (Alt (StrI ''Chairman'') (StrI ''Director''))))))"

definition patterns :: "(re \<times> string) list" where
  "patterns =
     [(moneyRe, ''MONEY''), (fiscalRe, ''FISCAL_PERIOD''), (dateRe, ''DATE''),
      (percentRe, ''PERCENTAGE''), (roleRe, ''ROLE'')]"

definition trim :: "string \<Rightarrow> string" where
  "trim s = rev (dropWhile isSpaceChar (rev (dropWhile isSpaceChar s)))"

text \<open>
  The \<open>Map\<close> of entities is a list in insertion order. A name already present keeps its
  place and its first type, and its count goes up by one.
\<close>

definition addEntity :: "string \<Rightarrow> Entity list \<Rightarrow> string \<Rightarrow> Entity list" where
  "addEntity ty ents m =
     (let normalized = trim m in
      if normalized \<in> set (map name ents)
      then map (\<lambda>e. if name e = normalized then e\<lparr>count := count e + 1\<rparr> else e) ents
      else ents @ [\<lparr>name = normalized, etype = ty, count = 1\<rparr>])"

definition collectEntities :: "string \<Rightarrow> Entity list" where
  "collectEntities text =
     foldl (\<lambda>ents (r, ty). foldl (addEntity ty) ents (scan r 0 text)) [] patterns"

text \<open>\<open>.sort((a, b) => b.count - a.count)\<close> is a stable sort by descending count, as \<open>sort_key\<close> is.\<close>

definition extractEntities :: "string \<Rightarrow> Entity list" where
  "extractEntities text = take 10 (sort_key (\<lambda>e. - int (count e)) (collectEntities text))"

subsection \<open>NLPEngine.extractKeyPhrases\<close>

definition bigrams :: "string list \<Rightarrow> string list" where
  "bigrams toks = map (\<lambda>(a, b). a @ '' '' @ b) (zip toks (tl toks))"

definition bumpFreq :: "(string \<times> nat) list \<Rightarrow> string \<Rightarrow> (string \<times> nat) list" where
  "bumpFreq m k =
     (if k \<in> set (map fst m) then map (\<lambda>(k', c). if k' = k then (k', c + 1) else (k', c)) m
      else m @ [(k, 1)])"

definition ngramFreq :: "string list \<Rightarrow> (string \<times> nat) list" where
  "ngramFreq toks = foldl bumpFreq [] (bigrams toks)"

definition extractKeyPhrases :: "string list \<Rightarrow> string list" where
  "extractKeyPhrases toks =
     map fst (take 8 (sort_key (\<lambda>(phrase, c). - int c)
       (filter (\<lambda>(phrase, c). c > 1 \<and> length phrase > 6) (ngramFreq toks))))"

subsection \<open>NLPEngine.hashCode and NLPEngine.generateEmbedding\<close>

text \<open>
  \<open>hash = (hash << 5) - hash + str.charCodeAt(i); hash |= 0\<close>: arithmetic on 32-bit
  integers with wrap-around, read as a signed value at the end.
\<close>

definition hashStep :: "32 word \<Rightarrow> char \<Rightarrow> 32 word" where
  "hashStep h c = push_bit 5 h - h + of_nat (code c)"

definition hashCode :: "string \<Rightarrow> int" where
  "hashCode str = sint (foldl hashStep 0 str)"

text \<open>
  One round of \<open>tokens.forEach\<close>: every component \<open>i\<close> of the vector gets
  \<open>Math.sin(hash * (i + 1) * 0.1) / (tokens.length || 1)\<close> added; \<open>n\<close> is \<open>tokens.length\<close>.
  The sine of a finite number is a finite number; the division is the division of
  the source, which would give an infinity or NaN for the divisor 0.
\<close>

definition addToken :: "nat \<Rightarrow> jsnum list \<Rightarrow> string \<Rightarrow> jsnum list" where
  "addToken n embedding token =
     map (\<lambda>(i, v). v + Num (sin (real_of_int (hashCode token) * (real i + 1) * (1 / 10))) / Num (or1 n))
       (zip [0 ..< length embedding] embedding)"

definition accumulate :: "string list \<Rightarrow> jsnum list" where
  "accumulate toks = foldl (addToken (length toks)) (replicate 128 (Num 0)) toks"

text \<open>\<open>Math.sqrt(embedding.reduce((sum, v) => sum + v * v, 0)) || 1\<close>\<close>

definition magnitude :: "jsnum list \<Rightarrow> jsnum" where
  "magnitude embedding = js_or (js_sqrt (foldl (\<lambda>sum v. sum + v * v) (Num 0) embedding)) (Num 1)"

definition generateEmbedding :: "string list \<Rightarrow> jsnum list" where
  "generateEmbedding toks =
     (let embedding = accumulate toks; m = magnitude embedding
      in map (\<lambda>v. round_num ((v / m) * Num 1000) / Num 1000) embedding)"

subsection \<open>NLPEngine.analyze\<close>

definition analyze :: "string \<Rightarrow> NLPResult" where
  "analyze text =
     (let toks = tokenize text in
      \<lparr> tokens = take 50 toks,
        embeddings = generateEmbedding toks,
        sentiment = computeSentiment toks,
        entities = extractEntities text,
        keyPhrases = extractKeyPhrases toks \<rparr>)"

subsection \<open>SignalGenerator\<close>

text \<open>
  The two score tables are object literals indexed by the ticker. \<open>table[ticker]\<close>
  finds the keys of the literal, and after them the members every object inherits
  from \<open>Object.prototype\<close>: for these twelve names the lookup gives a function (an
  object for \<open>__proto__\<close>), which is not \<open>undefined\<close>, so that \<open>??\<close> keeps it and no random
  number is drawn; every use of the score in \<open>generateSignal\<close> is arithmetic or a
  comparison, which turns it into NaN. Only a ticker that is neither falls through
  \<open>??\<close> to the random stand-in. \<open>rnd\<close> is the value \<open>Math.random()\<close> returns there, a number
  in \<open>[0, 1)\<close>. \<open>tableLookup\<close> gives \<open>None\<close> for \<open>undefined\<close>.
\<close>

definition inheritedKeys :: "string list" where
  "inheritedKeys =
     [''constructor'', ''__defineGetter__'', ''__defineSetter__'', ''hasOwnProperty'',
      ''__lookupGetter__'', ''__lookupSetter__'', ''isPrototypeOf'', ''propertyIsEnumerable'',
      ''toString'', ''valueOf'', ''__proto__'', ''toLocaleString'']"

definition tableLookup :: "(string \<times> real) list \<Rightarrow> string \<Rightarrow> jsnum option" where
  "tableLookup table tk =
     (case map_of table tk of
        Some v \<Rightarrow> Some (Num v)
      | None \<Rightarrow> if tk \<in> set inheritedKeys then Some NaN else None)"

definition fundamentals :: "(string \<times> real) list" where
  "fundamentals =
     [(''AAPL'', 82 / 100), (''MSFT'', 78 / 100), (''GOOGL'', 75 / 100), (''NVDA'', 88 / 100),
      (''AMZN'', 65 / 100), (''META'', 58 / 100), (''TSLA'', 45 / 100), (''JPM'', 72 / 100),
      (''V'', 80 / 100), (''JNJ'', 70 / 100)]"

definition computeFundamentalScore :: "string \<Rightarrow> real \<Rightarrow> jsnum" where
  "computeFundamentalScore tk rnd =
     (case tableLookup fundamentals tk of Some v \<Rightarrow> v | None \<Rightarrow> Num (5 / 10 + rnd * (4 / 10)))"

definition technicals :: "(string \<times> real) list" where
  "technicals =
     [(''AAPL'', 75 / 100), (''MSFT'', 82 / 100), (''GOOGL'', 68 / 100), (''NVDA'', 91 / 100),
      (''AMZN'', 55 / 100), (''META'', 48 / 100), (''TSLA'', 35 / 100), (''JPM'', 65 / 100),
      (''V'', 78 / 100), (''JNJ'', 72 / 100)]"

definition computeTechnicalScore :: "string \<Rightarrow> real \<Rightarrow> jsnum" where
  "computeTechnicalScore tk rnd =
     (case tableLookup technicals tk of Some v \<Rightarrow> v | None \<Rightarrow> Num (4 / 10 + rnd * (5 / 10)))"

text \<open>The local constants of \<open>generateSignal\<close>, in the order the source computes them.\<close>

definition sentimentScore :: "NLPResult \<Rightarrow> real" where
  "sentimentScore nlpResult =
     (positive (sentiment nlpResult) - negative (sentiment nlpResult) + 50) / 100"

definition compositeScore :: "string \<Rightarrow> NLPResult \<Rightarrow> real \<Rightarrow> real \<Rightarrow> jsnum" where
  "compositeScore tk nlpResult rnd1 rnd2 =
     Num (35 / 100) * Num (sentimentScore nlpResult)
       + Num (35 / 100) * computeFundamentalScore tk rnd1
       + Num (30 / 100) * computeTechnicalScore tk rnd2"

text \<open>The \<open>if\<close> / \<open>else if\<close> / \<open>else\<close> chain: the decision and the reasoning it pushes.\<close>

definition classify :: "jsnum \<Rightarrow> jsnum \<Rightarrow> jsnum \<Rightarrow> decision \<times> string list" where
  "classify composite fundamentalScore technicalScore =
     (if js_ge composite (Num (65 / 100)) then
        (BUY, [''Strong positive sentiment detected in filings'']
              @ (if js_gt fundamentalScore (Num (7 / 10)) then [''Solid fundamental metrics''] else [])
              @ (if js_gt technicalScore (Num (7 / 10)) then [''Favorable technical setup''] else []))
      else if js_ge composite (Num (40 / 100)) then
        (HOLD, [''Mixed signals from sentiment analysis'', ''Await clearer directional catalyst''])
      else
        (SELL, [''Elevated negative sentiment in disclosures'']
               @ (if js_lt fundamentalScore (Num (4 / 10)) then [''Deteriorating fundamentals''] else [])
               @ (if js_lt technicalScore (Num (4 / 10)) then [''Weak technical indicators''] else [])))"

definition generateSignal :: "string \<Rightarrow> NLPResult \<Rightarrow> real \<Rightarrow> real \<Rightarrow> Signal" where
  "generateSignal tk nlpResult rnd1 rnd2 =
     (let fundamentalScore = computeFundamentalScore tk rnd1;
          technicalScore = computeTechnicalScore tk rnd2;
          composite = compositeScore tk nlpResult rnd1 rnd2;
          cls = classify composite fundamentalScore technicalScore
      in \<lparr> ticker = tk,
           signal = fst cls,
           confidence = round_num (\<bar>composite - Num (5 / 10)\<bar> * Num 200),
           components =
             \<lparr> c_sentiment = js_round (sentimentScore nlpResult * 100),
               c_fundamental = round_num (fundamentalScore * Num 100),
               c_technical = round_num (technicalScore * Num 100) \<rparr>,
           reasoning = snd cls \<rparr>)"

subsection \<open>BacktestEngine.backtest\<close>

text \<open>
  The whole body of \<open>backtest\<close>: closed formulas over the confidences and the number of
  BUY signals. \<open>rnd\<close> is the one \<open>Math.random()\<close> of \<open>maxDrawdown\<close>. The source never
  reads \<open>config\<close>.
\<close>

definition avgConfidence :: "Signal list \<Rightarrow> jsnum" where
  "avgConfidence signals =
     foldl (\<lambda>sum s. sum + confidence s) (Num 0) signals / Num (or1 (length signals))"

definition signalQuality :: "Signal list \<Rightarrow> real" where
  "signalQuality signals =
     real (length (filter (\<lambda>s. signal s = BUY) signals)) / or1 (length signals)"

definition baseReturn :: "Signal list \<Rightarrow> jsnum" where
  "baseReturn signals = Num (15 / 100) + (avgConfidence signals / Num 100) * Num (1 / 10)"

definition volatility :: "Signal list \<Rightarrow> real" where
  "volatility signals = 18 / 100 - signalQuality signals * (5 / 100)"

definition backtest :: "Signal list \<Rightarrow> Config \<Rightarrow> real \<Rightarrow> BacktestResult" where
  "backtest signals config rnd =
     \<lparr> sharpeRatio = round_num ((baseReturn signals / Num (volatility signals)) * Num 100) / Num 100,
       maxDrawdown = js_round ((- 8 - rnd * 10) * 100) / 100,
       winRate = round_num ((Num 55 + avgConfidence signals * Num (2 / 10)) * Num 10) / Num 10,
       alpha = round_num ((baseReturn signals - Num (8 / 100)) * Num 100 * Num 10) / Num 10,
       trades = \<lfloor>real (length signals) * (25 / 10)\<rfloor>,
       returns = round_num (baseReturn signals * Num 100 * Num 10) / Num 10 \<rparr>"

section \<open>Properties\<close>

subsection \<open>Evaluation lemmas\<close>

lemmas lexicon_defs = has_def positiveWords_def negativeWords_def uncertaintyWords_def
  stemWord_def suffixes_def endsWith_def

lemmas char_defs = code_def isDigit_def isWordChar_def isSpaceChar_def toLowerChar_def

lemmas tokenize_defs = tokenize_def toLowerCase_def replacePunct_def

lemmas score_defs = computeSentiment_def positiveScore_def negativeScore_def neutralScore_def
  rawConfidence_def or1_def js_round_def

lemmas table_defs = computeFundamentalScore_def computeTechnicalScore_def tableLookup_def
  fundamentals_def technicals_def inheritedKeys_def

lemma analyze_tokens: "tokens (analyze text) = take 50 (tokenize text)"
  by (simp add: analyze_def Let_def)

lemma analyze_sentiment: "sentiment (analyze text) = computeSentiment (tokenize text)"
  by (simp add: analyze_def Let_def)

lemma analyze_embeddings: "embeddings (analyze text) = generateEmbedding (tokenize text)"
  by (simp add: analyze_def Let_def)

lemma analyze_entities: "entities (analyze text) = extractEntities text"
  by (simp add: analyze_def Let_def)

lemma analyze_keyPhrases: "keyPhrases (analyze text) = extractKeyPhrases (tokenize text)"
  by (simp add: analyze_def Let_def)

lemma tokenize_empty: "tokenize [] = []"
  by (simp add: tokenize_defs)

lemma countTokens_empty: "countTokens [] = (0, 0, 0)"
  by (simp add: countTokens_def)

lemma computeSentiment_empty:
  "computeSentiment [] = \<lparr>positive = 0, negative = 0, neutral = 100, s_confidence = 100\<rparr>"
  by (simp add: score_defs countTokens_empty)

lemma extractEntities_empty: "extractEntities [] = []"
  by (simp add: extractEntities_def collectEntities_def patterns_def)

lemma extractKeyPhrases_empty: "extractKeyPhrases [] = []"
  by (simp add: extractKeyPhrases_def ngramFreq_def bigrams_def)

lemma js_round_0: "js_round 0 = 0"
  by (simp add: js_round_def)


lemma js_round_ge_int: "of_int k \<le> x \<Longrightarrow> of_int k \<le> js_round x"
  by (simp add: js_round_def le_floor_iff)

lemma js_round_le_int: "x \<le> of_int k \<Longrightarrow> js_round x \<le> of_int k"
  by (simp add: js_round_def floor_le_iff)

lemma or1_nonzero: "or1 n \<noteq> 0"
  by (simp add: or1_def)

lemma isNum_iff: "isNum x \<longleftrightarrow> (\<exists>a. x = Num a)"
  by (cases x) simp_all

lemma tokenize_growth: "tokenize ''growth'' = [''growth'']"
  by (simp add: tokenize_defs char_defs)

lemma countTokens_growth: "countTokens [''growth''] = (1, 0, 0)"
  by (simp add: countTokens_def countToken_def lexicon_defs)

lemma sentiment_growth:
  "sentiment (analyze ''growth'') = \<lparr>positive = 100, negative = 0, neutral = 0, s_confidence = 100\<rparr>"
  by (simp add: analyze_sentiment tokenize_growth score_defs countTokens_growth)

lemma splitWs_aaa: "splitWs prev (''aaa '' @ rest) = ''aaa'' # splitWs True rest"
  by (simp add: char_defs)

lemma splitWs_growth: "splitWs prev ''growth'' = [''growth'']"
  by (simp add: char_defs)

lemma splitWs_filler:
  "splitWs prev (concat (replicate n ''aaa '') @ ''growth'') = replicate n ''aaa'' @ [''growth'']"
proof (induction n arbitrary: prev)
  case 0
  show ?case by (simp only: replicate_0 concat.simps append_Nil splitWs_growth)
next
  case (Suc n)
  have "splitWs prev (concat (replicate (Suc n) ''aaa '') @ ''growth'')
      = splitWs prev (''aaa '' @ (concat (replicate n ''aaa '') @ ''growth''))"
    by simp
  also have "\<dots> = ''aaa'' # splitWs True (concat (replicate n ''aaa '') @ ''growth'')"
    by (rule splitWs_aaa)
  also have "\<dots> = replicate (Suc n) ''aaa'' @ [''growth'']"
    by (simp add: Suc.IH)
  finally show ?case .
qed

lemma prepare_filler:
  "replacePunct (toLowerCase (concat (replicate n ''aaa '') @ ''growth''))
     = concat (replicate n ''aaa '') @ ''growth''"
proof -
  have a: "map (\<lambda>c. if isWordChar c \<or> isSpaceChar c then c else CHR '' '') (map toLowerChar ''aaa '') = ''aaa ''"
    by (simp add: char_defs)
  have g: "map (\<lambda>c. if isWordChar c \<or> isSpaceChar c then c else CHR '' '') (map toLowerChar ''growth'') = ''growth''"
    by (simp add: char_defs)
  show ?thesis
    unfolding replacePunct_def toLowerCase_def map_append map_concat map_replicate a g ..
qed

lemma tokenize_filler:
  "tokenize (concat (replicate n ''aaa '') @ ''growth'') = replicate n ''aaa'' @ [''growth'']"
  by (simp add: tokenize_def prepare_filler splitWs_filler)

lemma countToken_aaa: "countToken acc ''aaa'' = acc"
  by (cases acc) (simp add: countToken_def lexicon_defs)

lemma countTokens_filler: "foldl countToken acc (replicate n ''aaa'') = acc"
  by (induction n) (simp_all add: countToken_aaa replicate_app_Cons_same)

lemma countTokens_filler_growth: "countTokens (replicate n ''aaa'' @ [''growth'']) = (1, 0, 0)"
  using countTokens_growth by (simp add: countTokens_def countTokens_filler)

subsection \<open>The lexicon scorer\<close>

lemma countTokens_scenario_A: "countTokens [''growth'', ''growth'', ''risk''] = (2, 1, 0)"
  by (simp add: countTokens_def countToken_def lexicon_defs)

text \<open>
  C6. In the word lists of the source \<open>growth\<close> is a positive word and \<open>risk\<close> a negative
  one. On the three tokens \<open>growth, growth, risk\<close> \<open>computeSentiment\<close> returns
  \<open>positive = 66.67\<close> and \<open>negative = 33.33\<close>: two and one matches out of three tokens,
  as percentages rounded to two decimals.
\<close>

theorem scenario_A:
  "has positiveWords ''growth'' \<and> has negativeWords ''risk''
   \<and> length [''growth'', ''growth'', ''risk''] = 3
   \<and> positive (computeSentiment [''growth'', ''growth'', ''risk'']) = 6667 / 100
   \<and> negative (computeSentiment [''growth'', ''growth'', ''risk'']) = 3333 / 100"
  by (simp add: computeSentiment_def positiveScore_def negativeScore_def countTokens_scenario_A
      or1_def js_round_def has_def positiveWords_def negativeWords_def)

















subsection \<open>Feature extraction\<close>

text \<open>
  C8. \<open>analyze\<close> is a total function with no failing branch: the source has no
  \<open>throw\<close> on this path, and \<open>text.match\<close> answers \<open>null\<close>, which the source replaces by
  \<open>[]\<close>. For the empty text it returns no tokens, no entities and no key phrases, and
  the three counts of the scorer (positive, negative, uncertainty) are all 0. The
  sentiment record built from these counts is \<open>positive = 0\<close>, \<open>negative = 0\<close>,
  \<open>neutral = 100 - 0 - 0 = 100\<close> and \<open>confidence = 100\<close>.
\<close>

theorem analyze_empty:
  "tokens (analyze []) = [] \<and> entities (analyze []) = [] \<and> keyPhrases (analyze []) = []
   \<and> countTokens (tokenize []) = (0, 0, 0)
   \<and> sentiment (analyze []) = \<lparr>positive = 0, negative = 0, neutral = 100, s_confidence = 100\<rparr>"
  by (simp add: analyze_tokens analyze_entities analyze_keyPhrases analyze_sentiment
      tokenize_empty countTokens_empty computeSentiment_empty extractEntities_empty
      extractKeyPhrases_empty)

text \<open>
  C9. The \<open>tokens\<close> field of \<open>analyze\<close> is the first 50 tokens of the tokenization, so
  at most 50 tokens, while the sentiment, the embedding and the key phrases are
  computed from the whole token list.
\<close>

theorem analyze_truncates_tokens_only:
  "tokens (analyze text) = take 50 (tokenize text)
   \<and> length (tokens (analyze text)) \<le> 50
   \<and> sentiment (analyze text) = computeSentiment (tokenize text)
   \<and> embeddings (analyze text) = generateEmbedding (tokenize text)
   \<and> keyPhrases (analyze text) = extractKeyPhrases (tokenize text)"
  by (simp add: analyze_def Let_def)

lemma countTokens_only_filler: "countTokens (replicate n ''aaa'') = (0, 0, 0)"
  by (simp add: countTokens_def countTokens_filler)

text \<open>
  C9 at a text of 51 tokens, fifty times \<open>aaa\<close> and then \<open>growth\<close>: the \<open>tokens\<close> field
  has 50 entries and has lost \<open>growth\<close>, while the sentiment still counts it
  (\<open>positive = 1.96\<close>, where the 50 kept tokens alone would give 0).
\<close>

theorem analyze_truncates_tokens_only_witness:
  "length (tokenize (concat (replicate 50 ''aaa '') @ ''growth'')) = 51
   \<and> length (tokens (analyze (concat (replicate 50 ''aaa '') @ ''growth''))) = 50
   \<and> positive (sentiment (analyze (concat (replicate 50 ''aaa '') @ ''growth''))) = 196 / 100
   \<and> positive (computeSentiment (tokens (analyze (concat (replicate 50 ''aaa '') @ ''growth'')))) = 0"
  using analyze_truncates_tokens_only [of "concat (replicate 50 ''aaa '') @ ''growth''"]
  by (simp add: tokenize_filler computeSentiment_def positiveScore_def countTokens_filler_growth
      countTokens_only_filler or1_def js_round_def)

subsection \<open>The embedding\<close>

lemma all_isNum_map_Num: "list_all isNum (map Num xs)"
  by (induction xs) simp_all

lemma all_isNum_is_map: "list_all isNum es \<Longrightarrow> \<exists>xs. es = map Num xs"
proof (induction es)
  case Nil
  show ?case by simp
next
  case (Cons e es)
  then obtain a xs where "e = Num a" "es = map Num xs"
    by (auto simp add: isNum_iff)
  then have "e # es = map Num (a # xs)" by simp
  then show ?case by (rule exI)
qed

text \<open>
  The body of the loop keeps a vector of finite numbers finite for every length \<open>n\<close>,
  0 included: its divisor is \<open>or1 n\<close>, never 0.
\<close>

lemma addToken_map_Num:
  "addToken n (map Num xs) token
     = map Num (map (\<lambda>(i, x). x + sin (real_of_int (hashCode token) * (real i + 1) * (1 / 10)) / or1 n)
         (zip [0 ..< length xs] xs))"
  by (simp add: addToken_def zip_map2 or1_nonzero split_def)

lemma addToken_finite: "list_all isNum (addToken n (map Num xs) token)"
  unfolding addToken_map_Num by (rule all_isNum_map_Num)

lemma length_addToken: "length (addToken n embedding token) = length embedding"
  by (simp add: addToken_def)

lemma foldl_addToken_finite:
  "list_all isNum embedding \<Longrightarrow> list_all isNum (foldl (addToken n) embedding toks)"
proof (induction toks arbitrary: embedding)
  case Nil
  then show ?case by simp
next
  case (Cons t toks)
  from Cons.prems obtain xs where "embedding = map Num xs"
    using all_isNum_is_map by blast
  then have "list_all isNum (addToken n embedding t)"
    by (simp add: addToken_finite)
  then show ?case
    using Cons.IH by simp
qed

lemma length_foldl_addToken: "length (foldl (addToken n) embedding toks) = length embedding"
  by (induction toks arbitrary: embedding) (simp_all add: length_addToken)

lemma length_accumulate: "length (accumulate toks) = 128"
  by (simp add: accumulate_def length_foldl_addToken)

lemma accumulate_finite: "list_all isNum (accumulate toks)"
  unfolding accumulate_def
  by (rule foldl_addToken_finite) (simp add: list_all_length)

lemma sum_squares_Num:
  "foldl (\<lambda>sum v. sum + v * v) (Num s) (map Num xs) = Num (foldl (\<lambda>sum v. sum + v * v) s xs)"
  by (induction xs arbitrary: s) simp_all

lemma sum_squares_nonneg: "0 \<le> s \<Longrightarrow> 0 \<le> foldl (\<lambda>sum v. sum + v * v) s (xs :: real list)"
  by (induction xs arbitrary: s) simp_all

lemma magnitude_Num: "\<exists>m. magnitude (map Num xs) = Num m \<and> m \<noteq> 0"
proof -
  define q where "q = foldl (\<lambda>sum v. sum + v * v) 0 xs"
  have q: "0 \<le> q"
    unfolding q_def by (rule sum_squares_nonneg) simp
  have "magnitude (map Num xs) = js_or (Num (sqrt q)) (Num 1)"
    using q by (simp add: magnitude_def sum_squares_Num q_def)
  then show ?thesis
    by (cases "sqrt q = 0") (simp_all add: js_or_def)
qed

lemma sum_squares_zeros: "foldl (\<lambda>sum v. sum + v * v) (Num 0) (replicate n (Num 0)) = Num 0"
  by (induction n) simp_all

lemma magnitude_zeros: "magnitude (replicate n (Num 0)) = Num 1"
  by (simp add: magnitude_def sum_squares_zeros js_or_def)

lemma generateEmbedding_finite: "list_all isNum (generateEmbedding toks)"
proof -
  obtain xs where xs: "accumulate toks = map Num xs"
    using accumulate_finite all_isNum_is_map by blast
  obtain m where m: "magnitude (map Num xs) = Num m" "m \<noteq> 0"
    using magnitude_Num by blast
  have "generateEmbedding toks = map Num (map (\<lambda>x. js_round ((x / m) * 1000) / 1000) xs)"
    using m by (simp add: generateEmbedding_def Let_def xs)
  then show ?thesis
    by (simp only: all_isNum_map_Num)
qed

text \<open>
  What the two guards keep out. Without \<open>|| 1\<close> the magnitude of the zero vector is 0,
  and normalizing the zero vector by it is \<open>0 / 0\<close>, which is NaN; and a sine divided by
  the length 0 is an infinity or NaN, not a finite number.
\<close>

lemma unguarded_magnitude_NaN:
  "Num 0 / js_sqrt (foldl (\<lambda>sum v. sum + v * v) (Num 0) (replicate 128 (Num 0))) = NaN"
  by (simp add: sum_squares_zeros)

lemma unguarded_length_not_finite: "\<not> isNum (Num (sin x) / Num (real (0::nat)))"
  by simp

text \<open>
  C10. \<open>generateEmbedding\<close> returns 128 numbers for every token list, and every one of
  them is a finite number: no division in it has the divisor 0, so that no NaN and no
  infinity arises. The loop body divides by \<open>tokens.length || 1\<close> and gives finite
  numbers also for the length 0; the magnitude \<open>Math.sqrt(...) || 1\<close> of a vector of
  finite numbers is a finite number other than 0, and is 1 for the zero vector. For
  the empty token list the result is the vector of 128 zeros.
\<close>

theorem generateEmbedding_total:
  "length (generateEmbedding toks) = 128
   \<and> list_all isNum (generateEmbedding toks)
   \<and> generateEmbedding [] = replicate 128 (Num 0)
   \<and> list_all isNum (addToken 0 (map Num xs) token)
   \<and> (\<exists>m. magnitude (map Num xs) = Num m \<and> m \<noteq> 0)
   \<and> magnitude (accumulate []) = Num 1"
proof -
  have "length (generateEmbedding toks) = 128"
    by (simp add: generateEmbedding_def Let_def length_accumulate)
  moreover have "generateEmbedding [] = replicate 128 (Num 0)"
    by (simp add: generateEmbedding_def Let_def accumulate_def magnitude_zeros js_round_0)
  moreover have "magnitude (accumulate []) = Num 1"
    by (simp add: accumulate_def magnitude_zeros)
  ultimately show ?thesis
    using generateEmbedding_finite [of toks] addToken_finite [of 0 xs token] magnitude_Num [of xs]
    by blast
qed

subsection \<open>The signal classifier\<close>


















text \<open>
  C3 at the failing input. For the one-word text \<open>growth\<close> every token is positive, so
  \<open>positive - negative = 100\<close> and the sentiment score is 1.5: the source applies no
  clamp, and the sentiment component of the signal is 150.
\<close>

theorem sentimentScore_above_one:
  "sentimentScore (analyze ''growth'') = 3 / 2
   \<and> c_sentiment (components (generateSignal ''NVDA'' (analyze ''growth'') rnd1 rnd2)) = 150"
  by (simp add: generateSignal_def sentimentScore_def sentiment_growth Let_def js_round_def)

lemma composite_NVDA_growth:
  "compositeScore ''NVDA'' (analyze ''growth'') rnd1 rnd2 = Num (1106 / 1000)"
  by (simp add: compositeScore_def sentimentScore_def sentiment_growth table_defs)

text \<open>
  C4 at the failing input. For the ticker NVDA and the text \<open>growth\<close> the composite
  score is 1.106 and the confidence is \<open>round(0.606 * 200) = 121\<close>: the source applies
  no clamp to the confidence either.
\<close>

theorem confidence_above_100:
  "compositeScore ''NVDA'' (analyze ''growth'') rnd1 rnd2 = Num (1106 / 1000)
   \<and> confidence (generateSignal ''NVDA'' (analyze ''growth'') rnd1 rnd2) = Num 121"
  by (simp add: generateSignal_def Let_def composite_NVDA_growth js_round_def)

text \<open>
  Where the code stays in range: the sentiment score is in \<open>[0, 1]\<close> exactly when
  \<open>positive - negative\<close> is in \<open>[-50, 50]\<close>, and the confidence is in \<open>[0, 100]\<close>
  whenever the composite score is a number in \<open>[0, 1]\<close>.
\<close>

lemma sentimentScore_unit_iff:
  "(0 \<le> sentimentScore nlpResult \<and> sentimentScore nlpResult \<le> 1)
     \<longleftrightarrow> (- 50 \<le> positive (sentiment nlpResult) - negative (sentiment nlpResult)
          \<and> positive (sentiment nlpResult) - negative (sentiment nlpResult) \<le> 50)"
  by (auto simp add: sentimentScore_def)

lemma abs_half:
  fixes c :: real
  assumes "0 \<le> c" "c \<le> 1"
  shows "\<bar>c - 5 / 10\<bar> * 200 \<le> 100"
proof (cases "c \<le> 5 / 10")
  case True
  then have "\<bar>c - 5 / 10\<bar> = 5 / 10 - c" by simp
  with assms show ?thesis by simp
next
  case False
  then have "\<bar>c - 5 / 10\<bar> = c - 5 / 10" by simp
  with assms show ?thesis by simp
qed

lemma confidence_in_range:
  assumes "compositeScore tk nlpResult rnd1 rnd2 = Num c" "0 \<le> c" "c \<le> 1"
  shows "\<exists>k. confidence (generateSignal tk nlpResult rnd1 rnd2) = Num k \<and> 0 \<le> k \<and> k \<le> 100"
proof -
  define k where "k = js_round (\<bar>c - 5 / 10\<bar> * 200)"
  have "0 \<le> \<bar>c - 5 / 10\<bar> * 200"
    by simp
  moreover from assms(2,3) have "\<bar>c - 5 / 10\<bar> * 200 \<le> 100"
    by (rule abs_half)
  ultimately have "0 \<le> k" and "k \<le> 100"
    using js_round_ge_int [of 0] js_round_le_int [of _ 100] by (simp_all add: k_def)
  moreover have "confidence (generateSignal tk nlpResult rnd1 rnd2) = Num k"
    unfolding k_def by (simp add: generateSignal_def Let_def assms(1))
  ultimately show ?thesis by blast
qed

subsection \<open>The backtest\<close>

text \<open>
  \<open>backtest\<close> never reads its configuration: the result is the same for every
  \<open>bufferDays\<close>. It builds no trade and no execution date; \<open>trades\<close> is the number
  \<open>\<lfloor>2.5 * n\<rfloor>\<close> for \<open>n\<close> signals.
\<close>

lemma backtest_ignores_config: "backtest signals config1 rnd = backtest signals config2 rnd"
  by (simp add: backtest_def)

lemma backtest_trades: "trades (backtest signals config rnd) = \<lfloor>real (length signals) * (25 / 10)\<rfloor>"
  by (simp add: backtest_def)

lemma foldl_confidence_bounds:
  assumes "\<forall>s\<in>set signals. \<exists>c. confidence s = Num c \<and> 0 \<le> c \<and> c \<le> 100"
  shows "\<exists>t. foldl (\<lambda>sum s. sum + confidence s) (Num acc) signals = Num t
     \<and> acc \<le> t \<and> t \<le> acc + 100 * real (length signals)"
  using assms
proof (induction signals arbitrary: acc)
  case Nil
  then show ?case by simp
next
  case (Cons s signals)
  from Cons.prems obtain c where c: "confidence s = Num c" "0 \<le> c" "c \<le> 100"
    by auto
  from Cons.prems have rest: "\<forall>s\<in>set signals. \<exists>c. confidence s = Num c \<and> 0 \<le> c \<and> c \<le> 100"
    by simp
  from Cons.IH [OF rest, of "acc + c"] obtain t
    where t: "foldl (\<lambda>sum s. sum + confidence s) (Num (acc + c)) signals = Num t"
      "acc + c \<le> t" "t \<le> acc + c + 100 * real (length signals)"
    by blast
  have "foldl (\<lambda>sum s. sum + confidence s) (Num acc) (s # signals) = Num t"
    by (simp add: c t)
  moreover from t c have "acc \<le> t" "t \<le> acc + 100 * real (length (s # signals))"
    by (simp_all add: algebra_simps)
  ultimately show ?case by blast
qed

lemma avgConfidence_bounds:
  assumes "\<forall>s\<in>set signals. \<exists>c. confidence s = Num c \<and> 0 \<le> c \<and> c \<le> 100"
  shows "\<exists>a. avgConfidence signals = Num a \<and> 0 \<le> a \<and> a \<le> 100"
proof -
  from foldl_confidence_bounds [OF assms, of 0] obtain t
    where t: "foldl (\<lambda>sum s. sum + confidence s) (Num 0) signals = Num t"
      "0 \<le> t" "t \<le> 100 * real (length signals)"
    by auto
  have avg: "avgConfidence signals = Num (t / or1 (length signals))"
    by (simp add: avgConfidence_def t or1_nonzero)
  have "0 \<le> t / or1 (length signals) \<and> t / or1 (length signals) \<le> 100"
  proof (cases "signals = []")
    case True
    with t show ?thesis by (simp add: or1_def)
  next
    case False
    then have "0 < real (length signals)" by simp
    with t False show ?thesis
      by (simp add: or1_def field_simps)
  qed
  with avg show ?thesis by blast
qed

text \<open>
  C5, as stated, fails. \<open>winRate\<close> is on the percent scale: for no signals at all
  it is 55, which is not in \<open>[0, 1]\<close>.
\<close>

theorem winRate_counterexample:
  "winRate (backtest [] \<lparr>bufferDays = 5, initialCapital = 1000000\<rparr> 0) = Num 55
   \<and> \<not> (js_ge (winRate (backtest [] \<lparr>bufferDays = 5, initialCapital = 1000000\<rparr> 0)) (Num 0)
        \<and> js_ge (Num 1) (winRate (backtest [] \<lparr>bufferDays = 5, initialCapital = 1000000\<rparr> 0)))"
  by (simp add: backtest_def avgConfidence_def or1_def js_round_def)

text \<open>
  C5, amended. \<open>winRate\<close> is a simulated percentage,
  \<open>round((55 + 0.2 * avgConfidence) * 10) / 10\<close>, where \<open>avgConfidence\<close> is the mean
  confidence of the signals (0 for no signals). It lies in \<open>[55, 75]\<close> when every
  signal has a confidence in \<open>[0, 100]\<close>. No trade enters it.
\<close>

theorem winRate_simulated:
  "winRate (backtest signals config rnd)
      = round_num ((Num 55 + avgConfidence signals * Num (2 / 10)) * Num 10) / Num 10
   \<and> ((\<forall>s\<in>set signals. \<exists>c. confidence s = Num c \<and> 0 \<le> c \<and> c \<le> 100)
        \<longrightarrow> (\<exists>w. winRate (backtest signals config rnd) = Num w \<and> 55 \<le> w \<and> w \<le> 75))"
proof -
  have eq: "winRate (backtest signals config rnd)
      = round_num ((Num 55 + avgConfidence signals * Num (2 / 10)) * Num 10) / Num 10"
    by (simp add: backtest_def)
  have "\<exists>w. winRate (backtest signals config rnd) = Num w \<and> 55 \<le> w \<and> w \<le> 75"
    if "\<forall>s\<in>set signals. \<exists>c. confidence s = Num c \<and> 0 \<le> c \<and> c \<le> 100"
  proof -
    from avgConfidence_bounds [OF that] obtain a
      where a: "avgConfidence signals = Num a" "0 \<le> a" "a \<le> 100"
      by blast
    define w where "w = js_round ((55 + a * (2 / 10)) * 10) / 10"
    from a have "550 \<le> (55 + a * (2 / 10)) * 10" and "(55 + a * (2 / 10)) * 10 \<le> 750"
      by simp_all
    then have "550 \<le> js_round ((55 + a * (2 / 10)) * 10)"
      and "js_round ((55 + a * (2 / 10)) * 10) \<le> 750"
      using js_round_ge_int [of 550] js_round_le_int [of _ 750] by simp_all
    then have "55 \<le> w" and "w \<le> 75"
      by (simp_all add: w_def)
    moreover have "winRate (backtest signals config rnd) = Num w"
      unfolding w_def by (simp add: eq a)
    ultimately show ?thesis by blast
  qed
  with eq show ?thesis by blast
qed

text \<open>
  C5, amended, at one signal of confidence 50: the hypothesis holds and \<open>winRate\<close> is 65.
\<close>

theorem winRate_simulated_witness:
  "confidence \<lparr>ticker = ''AAPL'', signal = BUY, confidence = Num 50,
        components = \<lparr>c_sentiment = 50, c_fundamental = Num 82, c_technical = Num 75\<rparr>,
        reasoning = []\<rparr> = Num 50
   \<and> (0::real) \<le> 50 \<and> (50::real) \<le> 100
   \<and> winRate (backtest
        [\<lparr>ticker = ''AAPL'', signal = BUY, confidence = Num 50,
          components = \<lparr>c_sentiment = 50, c_fundamental = Num 82, c_technical = Num 75\<rparr>,
          reasoning = []\<rparr>]
        \<lparr>bufferDays = 5, initialCapital = 1000000\<rparr> 0) = Num 65
   \<and> (55::real) \<le> 65 \<and> (65::real) \<le> 75"
  using winRate_simulated [of
      "[\<lparr>ticker = ''AAPL'', signal = BUY, confidence = Num 50,
          components = \<lparr>c_sentiment = 50, c_fundamental = Num 82, c_technical = Num 75\<rparr>,
          reasoning = []\<rparr>]"
      "\<lparr>bufferDays = 5, initialCapital = 1000000\<rparr>" 0]
  by (simp add: avgConfidence_def or1_def js_round_def)

end
